theory Spec2Isabelle
  imports Complex_Main
begin

section \<open>Python numbers and exceptions\<close>

text \<open>
  The module \<^verbatim>\<open>triangula/chassis.py\<close> is Python 2 code (it names \<^verbatim>\<open>long\<close>,
  \<^verbatim>\<open>operator.div\<close> and \<^verbatim>\<open>__nonzero__\<close>). A number reaching it is an \<^verbatim>\<open>int\<close>/\<^verbatim>\<open>long\<close>
  (unbounded, one constructor) or a \<^verbatim>\<open>float\<close>. Integer arithmetic is exact and modelled
  as such. What a float is and what each float operation returns (rounding, underflow,
  infinities, NaN) is the platform's; the type \<open>'f\<close> of float values and the record of
  float operations below are parameters of every definition. The model fixes only what
  Python itself decides: which operand is converted, in which order, and which exception
  an operation raises.
\<close>

datatype 'f pynum = PyInt int | PyFloat 'f

datatype error =
  ValueError string | ZeroDivisionError | AssertionError | AttributeError | IndexError
  | TypeError | OverflowError

text \<open>The message of the \<^verbatim>\<open>ValueError\<close> that \<^verbatim>\<open>OmniWheel.__init__\<close> raises.\<close>

definition wheel_spec_message :: string where
  "wheel_spec_message = ''Must specify exactly one of angle and radius or dx,dy vector''"

text \<open>The message of the \<^verbatim>\<open>ValueError\<close> of the \<^verbatim>\<open>math\<close> module.\<close>

definition math_domain_error :: string where
  "math_domain_error = ''math domain error''"

text \<open>
  The float operations of the platform. \<open>fl_of_int\<close> is the C conversion of an int that
  is within float range. An operation with an \<open>option\<close> result can fail: \<open>fl_pow2\<close> is
  \<^verbatim>\<open>x ** 2\<close>, which raises \<^verbatim>\<open>OverflowError\<close> when the result is out of range;
  \<open>fl_int_truediv\<close> is the true quotient of two ints with a non-zero divisor, which
  raises \<^verbatim>\<open>OverflowError\<close> when it is too large for a float; \<open>fl_sqrt\<close>, \<open>fl_sin\<close> and
  \<open>fl_cos\<close> are the functions of the \<^verbatim>\<open>math\<close> module on a float, which raise
  \<^verbatim>\<open>ValueError\<close> outside their domain. The other operations never raise: \<^verbatim>\<open>+\<close>, \<^verbatim>\<open>-\<close>,
  \<^verbatim>\<open>*\<close>, and \<^verbatim>\<open>/\<close> and \<^verbatim>\<open>//\<close> by a non-zero float, return a float whatever the operands.
  \<open>fl_is_zero\<close> is the C test \<^verbatim>\<open>x == 0.0\<close>, \<open>fl_eq\<close> and \<open>fl_eq_int\<close> are \<^verbatim>\<open>==\<close> between
  two floats and between a float and an int (which Python compares without converting
  the int).
\<close>

record 'f float_ops =
  fl_of_int :: "int \<Rightarrow> 'f"
  fl_add :: "'f \<Rightarrow> 'f \<Rightarrow> 'f"
  fl_sub :: "'f \<Rightarrow> 'f \<Rightarrow> 'f"
  fl_mul :: "'f \<Rightarrow> 'f \<Rightarrow> 'f"
  fl_div :: "'f \<Rightarrow> 'f \<Rightarrow> 'f"
  fl_floordiv :: "'f \<Rightarrow> 'f \<Rightarrow> 'f"
  fl_neg :: "'f \<Rightarrow> 'f"
  fl_pow2 :: "'f \<Rightarrow> 'f option"
  fl_int_truediv :: "int \<Rightarrow> int \<Rightarrow> 'f option"
  fl_is_zero :: "'f \<Rightarrow> bool"
  fl_eq :: "'f \<Rightarrow> 'f \<Rightarrow> bool"
  fl_eq_int :: "'f \<Rightarrow> int \<Rightarrow> bool"
  fl_sqrt :: "'f \<Rightarrow> 'f option"
  fl_sin :: "'f \<Rightarrow> 'f option"
  fl_cos :: "'f \<Rightarrow> 'f option"
  fl_pi :: "'f"
  fl_radians :: "'f \<Rightarrow> 'f"

text \<open>Sequencing of a computation that may raise.\<close>

fun bind_result :: "error + 'a \<Rightarrow> ('a \<Rightarrow> error + 'b) \<Rightarrow> error + 'b" where
  "bind_result (Inl e) f = Inl e"
| "bind_result (Inr a) f = f a"

text \<open>
  Conversion of a number to a float, as the float operators and the \<^verbatim>\<open>math\<close> functions do
  with an int operand: an int whose nearest float would be \<open>2 ^ 1024\<close> or more raises
  \<^verbatim>\<open>OverflowError\<close> (\<^verbatim>\<open>long int too large to convert to float\<close>). The largest float is
  \<open>2 ^ 1024 - 2 ^ 971\<close>, and conversion rounds to nearest, so that is every int of
  magnitude \<open>2 ^ 1024 - 2 ^ 970\<close> or more.
\<close>

definition float_range_limit :: int where
  "float_range_limit = 2 ^ 1024 - 2 ^ 970"

fun as_float :: "'f float_ops \<Rightarrow> 'f pynum \<Rightarrow> 'f" where
  "as_float fp (PyInt i) = fl_of_int fp i"
| "as_float fp (PyFloat x) = x"

fun in_float_range :: "'f pynum \<Rightarrow> bool" where
  "in_float_range (PyInt i) = (\<bar>i\<bar> < float_range_limit)"
| "in_float_range (PyFloat x) = True"

definition to_float :: "'f float_ops \<Rightarrow> 'f pynum \<Rightarrow> error + 'f" where
  "to_float fp n = (if in_float_range n then Inr (as_float fp n) else Inl OverflowError)"

text \<open>
  A float operator applied to operands of which one is not an int: the left operand is
  converted, then the right one, then the operation is done.
\<close>

definition float_binop ::
  "'f float_ops \<Rightarrow> ('f \<Rightarrow> 'f \<Rightarrow> 'f) \<Rightarrow> 'f pynum \<Rightarrow> 'f pynum \<Rightarrow> error + 'f pynum" where
  "float_binop fp f a b =
     bind_result (to_float fp a) (\<lambda>x.
     bind_result (to_float fp b) (\<lambda>y.
     Inr (PyFloat (f x y))))"

text \<open>\<^verbatim>\<open>a + b\<close>, \<^verbatim>\<open>a - b\<close>, \<^verbatim>\<open>a * b\<close>: exact on two ints, a float operation otherwise.\<close>

fun py_add :: "'f float_ops \<Rightarrow> 'f pynum \<Rightarrow> 'f pynum \<Rightarrow> error + 'f pynum" where
  "py_add fp (PyInt a) (PyInt b) = Inr (PyInt (a + b))"
| "py_add fp a b = float_binop fp (fl_add fp) a b"

fun py_sub :: "'f float_ops \<Rightarrow> 'f pynum \<Rightarrow> 'f pynum \<Rightarrow> error + 'f pynum" where
  "py_sub fp (PyInt a) (PyInt b) = Inr (PyInt (a - b))"
| "py_sub fp a b = float_binop fp (fl_sub fp) a b"

fun py_mul :: "'f float_ops \<Rightarrow> 'f pynum \<Rightarrow> 'f pynum \<Rightarrow> error + 'f pynum" where
  "py_mul fp (PyInt a) (PyInt b) = Inr (PyInt (a * b))"
| "py_mul fp a b = float_binop fp (fl_mul fp) a b"

fun py_neg :: "'f float_ops \<Rightarrow> 'f pynum \<Rightarrow> 'f pynum" where
  "py_neg fp (PyInt a) = PyInt (- a)"
| "py_neg fp (PyFloat x) = PyFloat (fl_neg fp x)"

text \<open>\<^verbatim>\<open>a ** 2\<close>: exact on an int; on a float it raises when the square is out of range.\<close>

fun py_pow2 :: "'f float_ops \<Rightarrow> 'f pynum \<Rightarrow> error + 'f pynum" where
  "py_pow2 fp (PyInt a) = Inr (PyInt (a ^ 2))"
| "py_pow2 fp (PyFloat x) =
     (case fl_pow2 fp x of None \<Rightarrow> Inl OverflowError | Some r \<Rightarrow> Inr (PyFloat r))"

text \<open>\<^verbatim>\<open>a == b\<close> on numbers; it never raises.\<close>

fun py_eq :: "'f float_ops \<Rightarrow> 'f pynum \<Rightarrow> 'f pynum \<Rightarrow> bool" where
  "py_eq fp (PyInt a) (PyInt b) = (a = b)"
| "py_eq fp (PyFloat x) (PyFloat y) = fl_eq fp x y"
| "py_eq fp (PyFloat x) (PyInt b) = fl_eq_int fp x b"
| "py_eq fp (PyInt a) (PyFloat y) = fl_eq_int fp y a"

text \<open>Truth value of a number (\<^verbatim>\<open>if d:\<close>): it is not zero.\<close>

fun num_is_zero :: "'f float_ops \<Rightarrow> 'f pynum \<Rightarrow> bool" where
  "num_is_zero fp (PyInt a) = (a = 0)"
| "num_is_zero fp (PyFloat x) = fl_is_zero fp x"

definition py_truth :: "'f float_ops \<Rightarrow> 'f pynum \<Rightarrow> bool" where
  "py_truth fp a = (\<not> num_is_zero fp a)"

text \<open>
  Division of floats, taken by every division operator as soon as one operand is a
  float: both operands are converted (an int beyond float range raises
  \<^verbatim>\<open>OverflowError\<close>), then a zero divisor raises \<^verbatim>\<open>ZeroDivisionError\<close>. The converted
  divisor is \<^verbatim>\<open>0.0\<close> for the int \<open>0\<close> and for no other int.
\<close>

definition float_div ::
  "'f float_ops \<Rightarrow> ('f \<Rightarrow> 'f \<Rightarrow> 'f) \<Rightarrow> 'f pynum \<Rightarrow> 'f pynum \<Rightarrow> error + 'f pynum" where
  "float_div fp f a b =
     bind_result (to_float fp a) (\<lambda>x.
     bind_result (to_float fp b) (\<lambda>y.
     if num_is_zero fp b then Inl ZeroDivisionError else Inr (PyFloat (f x y))))"

text \<open>
  \<^verbatim>\<open>operator.div\<close>, which is also the \<^verbatim>\<open>/\<close> of this module (Python 2 without
  \<^verbatim>\<open>from __future__ import division\<close>): the floor quotient on two ints.
\<close>

fun py_div :: "'f float_ops \<Rightarrow> 'f pynum \<Rightarrow> 'f pynum \<Rightarrow> error + 'f pynum" where
  "py_div fp (PyInt a) (PyInt b) =
     (if b = 0 then Inl ZeroDivisionError else Inr (PyInt (a div b)))"
| "py_div fp a b = float_div fp (fl_div fp) a b"

text \<open>
  \<^verbatim>\<open>operator.truediv\<close>: on two ints, a zero divisor raises first; the quotient is then a
  float, or \<^verbatim>\<open>OverflowError\<close> when it is too large for one.
\<close>

fun py_truediv :: "'f float_ops \<Rightarrow> 'f pynum \<Rightarrow> 'f pynum \<Rightarrow> error + 'f pynum" where
  "py_truediv fp (PyInt a) (PyInt b) =
     (if b = 0 then Inl ZeroDivisionError
      else (case fl_int_truediv fp a b of
              None \<Rightarrow> Inl OverflowError
            | Some q \<Rightarrow> Inr (PyFloat q)))"
| "py_truediv fp a b = float_div fp (fl_div fp) a b"

text \<open>\<^verbatim>\<open>operator.floordiv\<close>: the floor quotient, an int on two ints.\<close>

fun py_floordiv :: "'f float_ops \<Rightarrow> 'f pynum \<Rightarrow> 'f pynum \<Rightarrow> error + 'f pynum" where
  "py_floordiv fp (PyInt a) (PyInt b) =
     (if b = 0 then Inl ZeroDivisionError else Inr (PyInt (a div b)))"
| "py_floordiv fp a b = float_div fp (fl_floordiv fp) a b"

text \<open>
  \<^verbatim>\<open>math.sqrt\<close>, \<^verbatim>\<open>math.sin\<close>, \<^verbatim>\<open>math.cos\<close> and \<^verbatim>\<open>math.radians\<close>: the argument is
  converted to a float first; the result is a float.
\<close>

definition math_fun :: "'f float_ops \<Rightarrow> ('f \<Rightarrow> 'f option) \<Rightarrow> 'f pynum \<Rightarrow> error + 'f pynum" where
  "math_fun fp f n =
     bind_result (to_float fp n) (\<lambda>x.
     case f x of None \<Rightarrow> Inl (ValueError math_domain_error) | Some r \<Rightarrow> Inr (PyFloat r))"

definition math_sqrt :: "'f float_ops \<Rightarrow> 'f pynum \<Rightarrow> error + 'f pynum" where
  "math_sqrt fp n = math_fun fp (fl_sqrt fp) n"

definition math_sin :: "'f float_ops \<Rightarrow> 'f pynum \<Rightarrow> error + 'f pynum" where
  "math_sin fp n = math_fun fp (fl_sin fp) n"

definition math_cos :: "'f float_ops \<Rightarrow> 'f pynum \<Rightarrow> error + 'f pynum" where
  "math_cos fp n = math_fun fp (fl_cos fp) n"

definition math_radians :: "'f float_ops \<Rightarrow> 'f pynum \<Rightarrow> error + 'f pynum" where
  "math_radians fp n = bind_result (to_float fp n) (\<lambda>x. Inr (PyFloat (fl_radians fp x)))"

section \<open>Vector2: the fields an operation computes\<close>

text \<open>
  The fields are \<^verbatim>\<open>x\<close> and \<^verbatim>\<open>y\<close> in the source; they carry a prefix here so that
  \<open>x\<close> and \<open>y\<close> stay usable as variables.
\<close>

record 'f Vector2 =
  vec_x :: "'f pynum"
  vec_y :: "'f pynum"

text \<open>\<^verbatim>\<open>Vector2(x, y)\<close>; the defaults are the ints \<^verbatim>\<open>0\<close>.\<close>

definition Vector2_init :: "'f pynum \<Rightarrow> 'f pynum \<Rightarrow> 'f Vector2" where
  "Vector2_init a b = \<lparr>vec_x = a, vec_y = b\<rparr>"

definition copy :: "'f Vector2 \<Rightarrow> 'f Vector2" where
  "copy self = Vector2_init (vec_x self) (vec_y self)"

text \<open>\<^verbatim>\<open>self.x * other.x + self.y * other.y\<close>, evaluated left to right.\<close>

definition dot :: "'f float_ops \<Rightarrow> 'f Vector2 \<Rightarrow> 'f Vector2 \<Rightarrow> error + 'f pynum" where
  "dot fp self other =
     bind_result (py_mul fp (vec_x self) (vec_x other)) (\<lambda>a.
     bind_result (py_mul fp (vec_y self) (vec_y other)) (\<lambda>b.
     py_add fp a b))"

definition cross :: "'f float_ops \<Rightarrow> 'f Vector2 \<Rightarrow> 'f Vector2" where
  "cross fp self = Vector2_init (vec_y self) (py_neg fp (vec_x self))"

definition magnitude_squared :: "'f float_ops \<Rightarrow> 'f Vector2 \<Rightarrow> error + 'f pynum" where
  "magnitude_squared fp self =
     bind_result (py_pow2 fp (vec_x self)) (\<lambda>a.
     bind_result (py_pow2 fp (vec_y self)) (\<lambda>b.
     py_add fp a b))"

text \<open>\<^verbatim>\<open>sqrt(self.x ** 2 + self.y ** 2)\<close>.\<close>

definition magnitude :: "'f float_ops \<Rightarrow> 'f Vector2 \<Rightarrow> error + 'f pynum" where
  "magnitude fp self =
     bind_result (py_pow2 fp (vec_x self)) (\<lambda>a.
     bind_result (py_pow2 fp (vec_y self)) (\<lambda>b.
     bind_result (py_add fp a b) (\<lambda>s.
     math_sqrt fp s)))"

definition normalized :: "'f float_ops \<Rightarrow> 'f Vector2 \<Rightarrow> error + 'f Vector2" where
  "normalized fp self =
     bind_result (magnitude fp self) (\<lambda>d.
     if py_truth fp d then
       bind_result (py_div fp (vec_x self) d) (\<lambda>a.
       bind_result (py_div fp (vec_y self) d) (\<lambda>b.
       Inr (Vector2_init a b)))
     else Inr (copy self))"

text \<open>
  The arithmetic on fields that the operator methods hand to \<^verbatim>\<open>Vector2(...)\<close>. The
  first component is computed first, so its exception wins.
\<close>

definition componentwise ::
  "('f pynum \<Rightarrow> error + 'f pynum) \<Rightarrow> 'f Vector2 \<Rightarrow> error + 'f Vector2" where
  "componentwise f self =
     bind_result (f (vec_x self)) (\<lambda>a.
     bind_result (f (vec_y self)) (\<lambda>b.
     Inr (Vector2_init a b)))"

section \<open>Vector2 objects in a store\<close>

text \<open>
  Methods such as \<^verbatim>\<open>__iadd__\<close> update the object they are called on, so objects live
  in a store: address \<open>a\<close> holds \<open>h ! a\<close>, a constructor call appends a fresh object.
  A reference handed to a method is an address of the store (\<open>a < length h\<close>); Python
  has no dangling references. A method returns the store it leaves and its result or
  its exception.
\<close>

type_synonym 'f heap = "'f Vector2 list"

datatype 'f pyval =
  NoneVal | BoolVal bool | NumVal "'f pynum" | SeqVal "'f pynum list" | VecRef nat

type_synonym 'f outcome = "'f heap \<times> (error + 'f pyval)"

definition new_vector :: "'f heap \<Rightarrow> 'f Vector2 \<Rightarrow> 'f outcome" where
  "new_vector h v = (h @ [v], Inr (VecRef (length h)))"

definition returns :: "'f heap \<Rightarrow> 'f pyval \<Rightarrow> 'f outcome" where
  "returns h r = (h, Inr r)"

definition raises :: "'f heap \<Rightarrow> error \<Rightarrow> 'f outcome" where
  "raises h e = (h, Inl e)"

definition new_or_raise :: "'f heap \<Rightarrow> error + 'f Vector2 \<Rightarrow> 'f outcome" where
  "new_or_raise h r = (case r of Inl e \<Rightarrow> raises h e | Inr v \<Rightarrow> new_vector h v)"

definition num_or_raise :: "'f heap \<Rightarrow> error + 'f pynum \<Rightarrow> 'f outcome" where
  "num_or_raise h r = (case r of Inl e \<Rightarrow> raises h e | Inr n \<Rightarrow> returns h (NumVal n))"

text \<open>\<^verbatim>\<open>Vector2(a, b)\<close> where computing \<open>a\<close>, then \<open>b\<close>, may raise.\<close>

definition vector_of ::
  "error + 'f pynum \<Rightarrow> error + 'f pynum \<Rightarrow> error + 'f Vector2" where
  "vector_of ra rb =
     bind_result ra (\<lambda>a. bind_result rb (\<lambda>b. Inr (Vector2_init a b)))"

text \<open>
  The operand pattern of \<^verbatim>\<open>__eq__\<close>, \<^verbatim>\<open>__add__\<close> and \<^verbatim>\<open>__sub__\<close>: a Vector2 gives its
  fields; anything else must pass
  \<^verbatim>\<open>assert hasattr(other, '__len__') and len(other) == 2\<close> and gives
  \<^verbatim>\<open>other[0], other[1]\<close>.
\<close>

fun operand_xy :: "'f heap \<Rightarrow> 'f pyval \<Rightarrow> error + 'f pynum \<times> 'f pynum" where
  "operand_xy h (VecRef b) = Inr (vec_x (h ! b), vec_y (h ! b))"
| "operand_xy h (SeqVal xs) =
     (if length xs = 2 then Inr (xs ! 0, xs ! 1) else Inl AssertionError)"
| "operand_xy h other = Inl AssertionError"

text \<open>\<^verbatim>\<open>assert type(other) in (int, long, float)\<close>: a bool is none of the three.\<close>

fun scalar_of :: "'f pyval \<Rightarrow> error + 'f pynum" where
  "scalar_of (NumVal k) = Inr k"
| "scalar_of other = Inl AssertionError"

definition Vector2_copy :: "'f heap \<Rightarrow> nat \<Rightarrow> 'f outcome" where
  "Vector2_copy h self = new_vector h (copy (h ! self))"

definition Vector2_eq :: "'f float_ops \<Rightarrow> 'f heap \<Rightarrow> nat \<Rightarrow> 'f pyval \<Rightarrow> 'f outcome" where
  "Vector2_eq fp h self other =
     (case operand_xy h other of
        Inl e \<Rightarrow> raises h e
      | Inr (a, b) \<Rightarrow>
          returns h (BoolVal (py_eq fp (vec_x (h ! self)) a \<and> py_eq fp (vec_y (h ! self)) b)))"

definition Vector2_ne :: "'f float_ops \<Rightarrow> 'f heap \<Rightarrow> nat \<Rightarrow> 'f pyval \<Rightarrow> 'f outcome" where
  "Vector2_ne fp h self other =
     (case Vector2_eq fp h self other of
        (h', Inr (BoolVal t)) \<Rightarrow> (h', Inr (BoolVal (\<not> t)))
      | r \<Rightarrow> r)"

text \<open>\<^verbatim>\<open>self.x != 0 or self.y != 0\<close>.\<close>

definition Vector2_nonzero :: "'f float_ops \<Rightarrow> 'f heap \<Rightarrow> nat \<Rightarrow> 'f outcome" where
  "Vector2_nonzero fp h self =
     returns h (BoolVal (\<not> (py_eq fp (vec_x (h ! self)) (PyInt 0) \<and>
                             py_eq fp (vec_y (h ! self)) (PyInt 0))))"

definition Vector2_len :: "'f heap \<Rightarrow> nat \<Rightarrow> 'f outcome" where
  "Vector2_len h self = returns h (NumVal (PyInt 2))"

definition Vector2_dot :: "'f float_ops \<Rightarrow> 'f heap \<Rightarrow> nat \<Rightarrow> 'f pyval \<Rightarrow> 'f outcome" where
  "Vector2_dot fp h self other =
     (case other of
        VecRef b \<Rightarrow> num_or_raise h (dot fp (h ! self) (h ! b))
      | _ \<Rightarrow> raises h AssertionError)"

definition Vector2_cross :: "'f float_ops \<Rightarrow> 'f heap \<Rightarrow> nat \<Rightarrow> 'f outcome" where
  "Vector2_cross fp h self = new_vector h (cross fp (h ! self))"

definition Vector2_abs :: "'f float_ops \<Rightarrow> 'f heap \<Rightarrow> nat \<Rightarrow> 'f outcome" where
  "Vector2_abs fp h self = num_or_raise h (magnitude fp (h ! self))"

definition Vector2_magnitude_squared :: "'f float_ops \<Rightarrow> 'f heap \<Rightarrow> nat \<Rightarrow> 'f outcome" where
  "Vector2_magnitude_squared fp h self = num_or_raise h (magnitude_squared fp (h ! self))"

definition Vector2_normalized :: "'f float_ops \<Rightarrow> 'f heap \<Rightarrow> nat \<Rightarrow> 'f outcome" where
  "Vector2_normalized fp h self = new_or_raise h (normalized fp (h ! self))"

definition Vector2_add :: "'f float_ops \<Rightarrow> 'f heap \<Rightarrow> nat \<Rightarrow> 'f pyval \<Rightarrow> 'f outcome" where
  "Vector2_add fp h self other =
     (case operand_xy h other of
        Inl e \<Rightarrow> raises h e
      | Inr (a, b) \<Rightarrow>
          new_or_raise h (vector_of (py_add fp (vec_x (h ! self)) a)
                                    (py_add fp (vec_y (h ! self)) b)))"

text \<open>\<^verbatim>\<open>__radd__ = __add__\<close>.\<close>

definition Vector2_radd :: "'f float_ops \<Rightarrow> 'f heap \<Rightarrow> nat \<Rightarrow> 'f pyval \<Rightarrow> 'f outcome" where
  "Vector2_radd = Vector2_add"

definition set_x :: "'f heap \<Rightarrow> nat \<Rightarrow> 'f pynum \<Rightarrow> 'f heap" where
  "set_x h self a = h[self := (h ! self)\<lparr>vec_x := a\<rparr>]"

definition set_y :: "'f heap \<Rightarrow> nat \<Rightarrow> 'f pynum \<Rightarrow> 'f heap" where
  "set_y h self b = h[self := (h ! self)\<lparr>vec_y := b\<rparr>]"

text \<open>
  The two augmented assignments of \<^verbatim>\<open>__iadd__\<close> and \<^verbatim>\<open>__imul__\<close>:
  \<^verbatim>\<open>self.x = self.x op a\<close>, then \<^verbatim>\<open>self.y = self.y op b\<close>, then \<^verbatim>\<open>return self\<close>. The
  second operand \<open>b\<close> is read from the store after \<^verbatim>\<open>self.x\<close> is assigned; an exception
  of the second operation leaves \<^verbatim>\<open>self.x\<close> assigned.
\<close>

definition assign_both ::
  "('f pynum \<Rightarrow> 'f pynum \<Rightarrow> error + 'f pynum) \<Rightarrow> 'f heap \<Rightarrow> nat \<Rightarrow> 'f pynum
     \<Rightarrow> ('f heap \<Rightarrow> error + 'f pynum) \<Rightarrow> 'f outcome" where
  "assign_both f h self a get_b =
     (case f (vec_x (h ! self)) a of
        Inl e \<Rightarrow> raises h e
      | Inr x' \<Rightarrow>
          (let h1 = set_x h self x' in
           case get_b h1 of
             Inl e \<Rightarrow> raises h1 e
           | Inr b \<Rightarrow>
               (case f (vec_y (h1 ! self)) b of
                  Inl e \<Rightarrow> raises h1 e
                | Inr y' \<Rightarrow> returns (set_y h1 self y') (VecRef self))))"

text \<open>
  \<^verbatim>\<open>__iadd__\<close>. Its second branch has no assertion: \<^verbatim>\<open>other[0]\<close> and \<^verbatim>\<open>other[1]\<close> are
  read when they are needed, so a one-element sequence raises after \<^verbatim>\<open>self.x\<close> is
  assigned, and a value that cannot be indexed raises \<^verbatim>\<open>TypeError\<close>.
\<close>

definition Vector2_iadd :: "'f float_ops \<Rightarrow> 'f heap \<Rightarrow> nat \<Rightarrow> 'f pyval \<Rightarrow> 'f outcome" where
  "Vector2_iadd fp h self other =
     (case other of
        VecRef b \<Rightarrow>
          assign_both (py_add fp) h self (vec_x (h ! b)) (\<lambda>h1. Inr (vec_y (h1 ! b)))
      | SeqVal [] \<Rightarrow> raises h IndexError
      | SeqVal [a] \<Rightarrow> assign_both (py_add fp) h self a (\<lambda>h1. Inl IndexError)
      | SeqVal (a # b # _) \<Rightarrow> assign_both (py_add fp) h self a (\<lambda>h1. Inr b)
      | _ \<Rightarrow> raises h TypeError)"

text \<open>\<^verbatim>\<open>(self.x, self.y)[key]\<close>: keys \<open>-2 .. 1\<close> index a pair.\<close>

definition Vector2_getitem :: "'f heap \<Rightarrow> nat \<Rightarrow> int \<Rightarrow> 'f outcome" where
  "Vector2_getitem h self key =
     (if key = 0 \<or> key = - 2 then returns h (NumVal (vec_x (h ! self)))
      else if key = 1 \<or> key = - 1 then returns h (NumVal (vec_y (h ! self)))
      else raises h IndexError)"

text \<open>
  \<^verbatim>\<open>l = [self.x, self.y]; l[key] = value; self.x, self.y = l\<close>: the assignment to
  \<^verbatim>\<open>l\<close> raises before \<^verbatim>\<open>self\<close> is touched; the method returns \<^verbatim>\<open>None\<close>.
\<close>

definition Vector2_setitem :: "'f heap \<Rightarrow> nat \<Rightarrow> int \<Rightarrow> 'f pynum \<Rightarrow> 'f outcome" where
  "Vector2_setitem h self key v =
     (if key = 0 \<or> key = - 2 then
        returns (set_y (set_x h self v) self (vec_y (h ! self))) NoneVal
      else if key = 1 \<or> key = - 1 then
        returns (set_y (set_x h self (vec_x (h ! self))) self v) NoneVal
      else raises h IndexError)"

definition Vector2_sub :: "'f float_ops \<Rightarrow> 'f heap \<Rightarrow> nat \<Rightarrow> 'f pyval \<Rightarrow> 'f outcome" where
  "Vector2_sub fp h self other =
     (case operand_xy h other of
        Inl e \<Rightarrow> raises h e
      | Inr (a, b) \<Rightarrow>
          new_or_raise h (vector_of (py_sub fp (vec_x (h ! self)) a)
                                    (py_sub fp (vec_y (h ! self)) b)))"

text \<open>
  \<^verbatim>\<open>__rsub__\<close> reads \<^verbatim>\<open>other.x\<close> in its second branch too; a sequence that passed the
  assertion has no such attribute.
\<close>

definition Vector2_rsub :: "'f float_ops \<Rightarrow> 'f heap \<Rightarrow> nat \<Rightarrow> 'f pyval \<Rightarrow> 'f outcome" where
  "Vector2_rsub fp h self other =
     (case other of
        VecRef b \<Rightarrow>
          new_or_raise h (vector_of (py_sub fp (vec_x (h ! b)) (vec_x (h ! self)))
                                    (py_sub fp (vec_y (h ! b)) (vec_y (h ! self))))
      | SeqVal xs \<Rightarrow> (if length xs = 2 then raises h AttributeError else raises h AssertionError)
      | _ \<Rightarrow> raises h AssertionError)"

definition Vector2_mul :: "'f float_ops \<Rightarrow> 'f heap \<Rightarrow> nat \<Rightarrow> 'f pyval \<Rightarrow> 'f outcome" where
  "Vector2_mul fp h self other =
     (case scalar_of other of
        Inl e \<Rightarrow> raises h e
      | Inr k \<Rightarrow>
          new_or_raise h (vector_of (py_mul fp (vec_x (h ! self)) k)
                                    (py_mul fp (vec_y (h ! self)) k)))"

text \<open>\<^verbatim>\<open>__rmul__ = __mul__\<close>.\<close>

definition Vector2_rmul :: "'f float_ops \<Rightarrow> 'f heap \<Rightarrow> nat \<Rightarrow> 'f pyval \<Rightarrow> 'f outcome" where
  "Vector2_rmul = Vector2_mul"

definition Vector2_imul :: "'f float_ops \<Rightarrow> 'f heap \<Rightarrow> nat \<Rightarrow> 'f pyval \<Rightarrow> 'f outcome" where
  "Vector2_imul fp h self other =
     (case scalar_of other of
        Inl e \<Rightarrow> raises h e
      | Inr k \<Rightarrow> assign_both (py_mul fp) h self k (\<lambda>h1. Inr k))"

definition Vector2_div :: "'f float_ops \<Rightarrow> 'f heap \<Rightarrow> nat \<Rightarrow> 'f pyval \<Rightarrow> 'f outcome" where
  "Vector2_div fp h self other =
     (case scalar_of other of
        Inl e \<Rightarrow> raises h e
      | Inr k \<Rightarrow> new_or_raise h (componentwise (\<lambda>c. py_div fp c k) (h ! self)))"

definition Vector2_rdiv :: "'f float_ops \<Rightarrow> 'f heap \<Rightarrow> nat \<Rightarrow> 'f pyval \<Rightarrow> 'f outcome" where
  "Vector2_rdiv fp h self other =
     (case scalar_of other of
        Inl e \<Rightarrow> raises h e
      | Inr k \<Rightarrow> new_or_raise h (componentwise (\<lambda>c. py_div fp k c) (h ! self)))"

definition Vector2_floordiv :: "'f float_ops \<Rightarrow> 'f heap \<Rightarrow> nat \<Rightarrow> 'f pyval \<Rightarrow> 'f outcome" where
  "Vector2_floordiv fp h self other =
     (case scalar_of other of
        Inl e \<Rightarrow> raises h e
      | Inr k \<Rightarrow> new_or_raise h (componentwise (\<lambda>c. py_floordiv fp c k) (h ! self)))"

definition Vector2_rfloordiv :: "'f float_ops \<Rightarrow> 'f heap \<Rightarrow> nat \<Rightarrow> 'f pyval \<Rightarrow> 'f outcome" where
  "Vector2_rfloordiv fp h self other =
     (case scalar_of other of
        Inl e \<Rightarrow> raises h e
      | Inr k \<Rightarrow> new_or_raise h (componentwise (\<lambda>c. py_floordiv fp k c) (h ! self)))"

definition Vector2_truediv :: "'f float_ops \<Rightarrow> 'f heap \<Rightarrow> nat \<Rightarrow> 'f pyval \<Rightarrow> 'f outcome" where
  "Vector2_truediv fp h self other =
     (case scalar_of other of
        Inl e \<Rightarrow> raises h e
      | Inr k \<Rightarrow> new_or_raise h (componentwise (\<lambda>c. py_truediv fp c k) (h ! self)))"

definition Vector2_rtruediv :: "'f float_ops \<Rightarrow> 'f heap \<Rightarrow> nat \<Rightarrow> 'f pyval \<Rightarrow> 'f outcome" where
  "Vector2_rtruediv fp h self other =
     (case scalar_of other of
        Inl e \<Rightarrow> raises h e
      | Inr k \<Rightarrow> new_or_raise h (componentwise (\<lambda>c. py_truediv fp k c) (h ! self)))"

definition Vector2_neg :: "'f float_ops \<Rightarrow> 'f heap \<Rightarrow> nat \<Rightarrow> 'f outcome" where
  "Vector2_neg fp h self =
     new_vector h (Vector2_init (py_neg fp (vec_x (h ! self))) (py_neg fp (vec_y (h ! self))))"

text \<open>\<^verbatim>\<open>__pos__ = __copy__\<close>.\<close>

definition Vector2_pos :: "'f heap \<Rightarrow> nat \<Rightarrow> 'f outcome" where
  "Vector2_pos = Vector2_copy"

section \<open>OmniWheel and HoloChassis\<close>

record 'f OmniWheel =
  wheel_x :: "'f pynum"
  wheel_y :: "'f pynum"
  wheel_dx :: "'f pynum"
  wheel_dy :: "'f pynum"

text \<open>
  \<^verbatim>\<open>OmniWheel.__init__(self, x, y, angle=None, radius=None, dx=None, dy=None)\<close>: an
  argument left out or passed as \<^verbatim>\<open>None\<close> is \<open>None\<close>. The second branch runs
  \<^verbatim>\<open>radians(angle)\<close>, \<^verbatim>\<open>2 * pi * radius\<close>, \<^verbatim>\<open>sin(angle_rads) * circumference\<close> and
  \<^verbatim>\<open>cos(angle_rads) * circumference\<close> in this order, and each of them may raise.
\<close>

definition OmniWheel_init ::
  "'f float_ops \<Rightarrow> 'f pynum \<Rightarrow> 'f pynum \<Rightarrow> 'f pynum option \<Rightarrow> 'f pynum option
     \<Rightarrow> 'f pynum option \<Rightarrow> 'f pynum option \<Rightarrow> error + 'f OmniWheel" where
  "OmniWheel_init fp x0 y0 angle radius dx dy =
     (if angle = None \<and> radius = None \<and> dx \<noteq> None \<and> dy \<noteq> None then
        Inr \<lparr>wheel_x = x0, wheel_y = y0, wheel_dx = the dx, wheel_dy = the dy\<rparr>
      else if angle \<noteq> None \<and> radius \<noteq> None \<and> dx = None \<and> dy = None then
        bind_result (math_radians fp (the angle)) (\<lambda>angle_rads.
        bind_result (py_mul fp (PyInt 2) (PyFloat (fl_pi fp))) (\<lambda>two_pi.
        bind_result (py_mul fp two_pi (the radius)) (\<lambda>circumference.
        bind_result (math_sin fp angle_rads) (\<lambda>s.
        bind_result (py_mul fp s circumference) (\<lambda>wdx.
        bind_result (math_cos fp angle_rads) (\<lambda>c.
        bind_result (py_mul fp c circumference) (\<lambda>wdy.
        Inr \<lparr>wheel_x = x0, wheel_y = y0, wheel_dx = wdx, wheel_dy = wdy\<rparr>)))))))
      else Inl (ValueError wheel_spec_message))"

record 'f HoloChassis =
  wheels :: "'f OmniWheel list"

definition HoloChassis_init :: "'f OmniWheel list \<Rightarrow> 'f HoloChassis" where
  "HoloChassis_init ws = \<lparr>wheels = ws\<rparr>"

text \<open>
  \<^verbatim>\<open>get_wheel_speeds(self, dx, dy, rotation, x_origin=0, y_origin=0)\<close>: after the
  docstring the body is the definition of the local function \<^verbatim>\<open>velocity_at\<close> and nothing
  more. No statement calls it and there is no \<^verbatim>\<open>return\<close>, so the call ends by falling
  off the end of the body, which in Python yields \<^verbatim>\<open>None\<close>. A returned sequence of
  speeds would be a \<open>SeqVal\<close>.
\<close>

definition get_wheel_speeds ::
  "'f HoloChassis \<Rightarrow> 'f pynum \<Rightarrow> 'f pynum \<Rightarrow> 'f pynum \<Rightarrow> 'f pynum \<Rightarrow> 'f pynum \<Rightarrow> 'f pyval" where
  "get_wheel_speeds self dx dy rotation x_origin y_origin =
     (let velocity_at = (\<lambda>(a :: 'f pynum) b. Vector2_init a b) in NoneVal)"

section \<open>Properties stated about the operations\<close>

text \<open>
  A call that began in store \<open>h\<close> and ended with outcome \<open>r\<close> was free of side effects
  when every object of \<open>h\<close> is still there with the fields it had, and either the call
  returned a vector, which then is the one object added to the store, or the store is
  exactly \<open>h\<close>.
\<close>

definition pure_call :: "'f heap \<Rightarrow> 'f outcome \<Rightarrow> bool" where
  "pure_call h r =
     (take (length h) (fst r) = h \<and>
      (case snd r of
         Inr (VecRef a) \<Rightarrow> a = length h \<and> length (fst r) = Suc (length h)
       | _ \<Rightarrow> fst r = h))"

text \<open>
  The wheel speed that section 4.2 of the specification describes, in its words and over
  the reals: \<open>r = position - origin\<close>; the rotational term is the angular rate in radians
  times \<open>perpendicular r = (r.y, - r.x)\<close>; \<open>v\<close> is \<open>(dx, dy)\<close> plus that term; the speed is
  \<open>dot v drive_vector / magnitude_squared drive_vector\<close>. It is what the results of
  \<open>get_wheel_speeds\<close> are compared with; the specification's numbers are reals, which
  here stand for its floats.
\<close>

fun num_val :: "real pynum \<Rightarrow> real" where
  "num_val (PyInt i) = real_of_int i"
| "num_val (PyFloat r) = r"

definition radians :: "real \<Rightarrow> real" where
  "radians a = a * (pi / 180)"

definition spec_wheel_speed ::
  "real OmniWheel \<Rightarrow> real \<Rightarrow> real \<Rightarrow> real \<Rightarrow> real \<Rightarrow> real \<Rightarrow> real" where
  "spec_wheel_speed w dx dy rotation x_origin y_origin =
     (let rx = num_val (wheel_x w) - x_origin;
          ry = num_val (wheel_y w) - y_origin;
          vx = dx + radians rotation * ry;
          vy = dy + radians rotation * (- rx)
      in (vx * num_val (wheel_dx w) + vy * num_val (wheel_dy w)) /
         ((num_val (wheel_dx w))\<^sup>2 + (num_val (wheel_dy w))\<^sup>2))"

definition spec_wheel_speeds ::
  "real HoloChassis \<Rightarrow> real pynum \<Rightarrow> real pynum \<Rightarrow> real pynum \<Rightarrow> real pynum \<Rightarrow> real pynum
     \<Rightarrow> real pyval" where
  "spec_wheel_speeds self dx dy rotation x_origin y_origin =
     SeqVal (map (\<lambda>w. PyFloat (spec_wheel_speed w (num_val dx) (num_val dy) (num_val rotation)
                                  (num_val x_origin) (num_val y_origin)))
                 (wheels self))"

section \<open>Exceptions of the arithmetic\<close>











section \<open>HoloChassis.get_wheel_speeds\<close>

text \<open>
  C10. For every chassis, whatever its wheels, and all arguments, \<^verbatim>\<open>get_wheel_speeds\<close>
  returns \<^verbatim>\<open>None\<close>; no sequence of speeds is ever its result.
\<close>

theorem get_wheel_speeds_returns_None:
  "get_wheel_speeds self dx dy rotation x_origin y_origin = NoneVal
   \<and> get_wheel_speeds self dx dy rotation x_origin y_origin \<noteq> SeqVal speeds"
  by (simp add: get_wheel_speeds_def)

text \<open>
  The speed of section 4.2 of the specification has the two properties the specification
  lists for it: a command equal to a wheel's drive vector, without rotation, gives that
  wheel the speed 1, and doubling the command doubles the speed.
\<close>

lemma spec_wheel_speed_parallel:
  "(num_val (wheel_dx w))\<^sup>2 + (num_val (wheel_dy w))\<^sup>2 \<noteq> 0 \<Longrightarrow>
     spec_wheel_speed w (num_val (wheel_dx w)) (num_val (wheel_dy w)) 0 x_origin y_origin = 1"
  by (simp add: spec_wheel_speed_def radians_def power2_eq_square)

lemma spec_wheel_speed_linear:
  "spec_wheel_speed w (2 * dx) (2 * dy) (2 * rotation) x_origin y_origin =
     2 * spec_wheel_speed w dx dy rotation x_origin y_origin"
proof -
  have "(2 * n) / d = 2 * (n / d)" for n d :: real
    by simp
  moreover have "(2 * dx + radians (2 * rotation) * ry) * a + (2 * dy + radians (2 * rotation) * rx) * b =
      2 * ((dx + radians rotation * ry) * a + (dy + radians rotation * rx) * b)" for rx ry a b
    by (simp add: radians_def algebra_simps)
  ultimately show ?thesis
    by (simp only: spec_wheel_speed_def Let_def)
qed

text \<open>
  C1. The claim asks for one speed per wheel, computed by the formula of section 4.2. On
  the chassis of one wheel at the origin with drive vector \<open>(3, 4)\<close>, commanded with
  \<open>dx = 3\<close>, \<open>dy = 4\<close> and no rotation, that formula gives the sequence holding the speed
  1; \<^verbatim>\<open>get_wheel_speeds\<close> returns \<^verbatim>\<open>None\<close>.
\<close>

theorem get_wheel_speeds_misses_specified_speed:
  "get_wheel_speeds (HoloChassis_init [\<lparr>wheel_x = PyInt 0, wheel_y = PyInt 0, wheel_dx = PyInt 3, wheel_dy = PyInt 4\<rparr>])
     (PyInt 3) (PyInt 4) (PyInt 0) (PyInt 0) (PyInt 0) = NoneVal
   \<and> spec_wheel_speeds (HoloChassis_init [\<lparr>wheel_x = PyInt 0, wheel_y = PyInt 0, wheel_dx = PyInt 3, wheel_dy = PyInt 4\<rparr>])
     (PyInt 3) (PyInt 4) (PyInt 0) (PyInt 0) (PyInt 0) = SeqVal [PyFloat 1]"
  by (simp add: get_wheel_speeds_def spec_wheel_speeds_def HoloChassis_init_def
      spec_wheel_speed_def radians_def)

text \<open>
  C2. On a chassis without wheels the claim asks for the empty sequence, which is also
  what the formula of section 4.2 gives; \<^verbatim>\<open>get_wheel_speeds\<close> returns \<^verbatim>\<open>None\<close>, which
  is not the empty sequence.
\<close>

theorem get_wheel_speeds_no_wheels_not_empty_sequence:
  "get_wheel_speeds (HoloChassis_init []) dx dy rotation x_origin y_origin = NoneVal
   \<and> get_wheel_speeds (HoloChassis_init []) dx dy rotation x_origin y_origin \<noteq> SeqVal []
   \<and> spec_wheel_speeds (HoloChassis_init []) dx dy rotation x_origin y_origin = SeqVal []"
  by (simp add: get_wheel_speeds_def spec_wheel_speeds_def HoloChassis_init_def)

text \<open>
  C3. The claim compares the speeds of a doubled command, component by component, with
  twice the speeds of the command. On the one-wheel chassis of C1 the formula of section
  4.2 gives the speed 2 for the doubled command \<open>(6, 8, 0)\<close>; \<^verbatim>\<open>get_wheel_speeds\<close>
  returns \<^verbatim>\<open>None\<close> for it, as it does for \<open>(3, 4, 0)\<close>, so there are no components to
  compare.
\<close>

theorem get_wheel_speeds_doubled_no_speeds:
  "get_wheel_speeds (HoloChassis_init [\<lparr>wheel_x = PyInt 0, wheel_y = PyInt 0, wheel_dx = PyInt 3, wheel_dy = PyInt 4\<rparr>])
     (PyInt 6) (PyInt 8) (PyInt 0) (PyInt 0) (PyInt 0) = NoneVal
   \<and> spec_wheel_speeds (HoloChassis_init [\<lparr>wheel_x = PyInt 0, wheel_y = PyInt 0, wheel_dx = PyInt 3, wheel_dy = PyInt 4\<rparr>])
     (PyInt 6) (PyInt 8) (PyInt 0) (PyInt 0) (PyInt 0) = SeqVal [PyFloat 2]"
  by (simp add: get_wheel_speeds_def spec_wheel_speeds_def HoloChassis_init_def
      spec_wheel_speed_def radians_def)

section \<open>OmniWheel construction\<close>

text \<open>
  C4, as claimed, fails: a wheel built from \<open>dx = 0\<close>, \<open>dy = 0\<close> is constructed, and its
  drive vector is the zero vector.
\<close>

theorem OmniWheel_init_zero_drive_vector_counterexample:
  "\<forall>fp :: 'f float_ops.
     OmniWheel_init fp (PyInt 100) (PyInt 0) None None (Some (PyInt 0)) (Some (PyInt 0)) =
       Inr \<lparr>wheel_x = PyInt 100, wheel_y = PyInt 0, wheel_dx = PyInt 0, wheel_dy = PyInt 0\<rparr>"
  by (simp add: OmniWheel_init_def)

text \<open>
  C4, amended. The constructor does not reject a zero drive vector: built from
  \<open>(dx, dy)\<close> alone it succeeds for every \<open>dx\<close> and \<open>dy\<close>, zero included, and stores them
  as they are.
\<close>

theorem OmniWheel_init_keeps_any_drive_vector:
  "OmniWheel_init fp x y None None (Some dx) (Some dy) =
     Inr \<lparr>wheel_x = x, wheel_y = y, wheel_dx = dx, wheel_dy = dy\<rparr>"
  by (simp add: OmniWheel_init_def)





text \<open>
  What the constructor computes from a float angle and a float radius: the sine and the
  cosine of \<^verbatim>\<open>radians(angle)\<close>, each multiplied by \<^verbatim>\<open>2 * pi * radius\<close>, all in the float
  arithmetic of the platform. Which floats these are at a given angle, for instance
  whether the second component is zero at 90 degrees, is decided by that arithmetic and
  not by the constructor.
\<close>

lemma OmniWheel_init_float_drive_vector:
  "OmniWheel_init fp x y (Some (PyFloat a)) (Some (PyFloat r)) None None =
     (case fl_sin fp (fl_radians fp a) of
        None \<Rightarrow> Inl (ValueError math_domain_error)
      | Some s \<Rightarrow>
          (case fl_cos fp (fl_radians fp a) of
             None \<Rightarrow> Inl (ValueError math_domain_error)
           | Some c \<Rightarrow>
               Inr \<lparr>wheel_x = x, wheel_y = y,
                    wheel_dx = PyFloat (fl_mul fp s
                      (fl_mul fp (fl_mul fp (fl_of_int fp 2) (fl_pi fp)) r)),
                    wheel_dy = PyFloat (fl_mul fp c
                      (fl_mul fp (fl_mul fp (fl_of_int fp 2) (fl_pi fp)) r))\<rparr>))"
  by (simp add: OmniWheel_init_def math_radians_def math_sin_def math_cos_def math_fun_def
      float_binop_def to_float_def float_range_limit_def split: option.splits)

section \<open>Vector2.normalized\<close>











section \<open>Scalar division of a Vector2\<close>













section \<open>Operations of Vector2 and the store\<close>

lemma pure_call_new_vector: "pure_call h (new_vector h v)"
  by (simp add: pure_call_def new_vector_def)

lemma pure_call_raises: "pure_call h (raises h e)"
  by (simp add: pure_call_def raises_def)

lemma pure_call_returns_num: "pure_call h (returns h (NumVal n))"
  by (simp add: pure_call_def returns_def)

lemma pure_call_returns_bool: "pure_call h (returns h (BoolVal b))"
  by (simp add: pure_call_def returns_def)

lemma pure_call_new_or_raise: "pure_call h (new_or_raise h r)"
  by (cases r) (simp_all add: new_or_raise_def pure_call_new_vector pure_call_raises)

lemma pure_call_num_or_raise: "pure_call h (num_or_raise h r)"
  by (cases r) (simp_all add: num_or_raise_def pure_call_returns_num pure_call_raises)

lemmas pure_call_intros =
  pure_call_new_vector pure_call_raises pure_call_returns_num pure_call_returns_bool
  pure_call_new_or_raise pure_call_num_or_raise

lemma pure_copy: "pure_call h (Vector2_copy h self)"
  by (simp add: Vector2_copy_def pure_call_intros)

lemma pure_eq: "pure_call h (Vector2_eq fp h self other)"
  by (simp add: Vector2_eq_def pure_call_intros split: sum.splits prod.splits)

lemma pure_ne: "pure_call h (Vector2_ne fp h self other)"
  using pure_eq [of h fp self other]
  by (auto simp: Vector2_ne_def pure_call_def split: prod.splits sum.splits pyval.splits)

lemma pure_nonzero: "pure_call h (Vector2_nonzero fp h self)"
  by (simp add: Vector2_nonzero_def pure_call_intros)

lemma pure_len: "pure_call h (Vector2_len h self)"
  by (simp add: Vector2_len_def pure_call_intros)

lemma pure_dot: "pure_call h (Vector2_dot fp h self other)"
  by (simp add: Vector2_dot_def pure_call_intros split: pyval.splits)

lemma pure_cross: "pure_call h (Vector2_cross fp h self)"
  by (simp add: Vector2_cross_def pure_call_intros)

lemma pure_abs: "pure_call h (Vector2_abs fp h self)"
  by (simp add: Vector2_abs_def pure_call_intros)

lemma pure_magnitude_squared: "pure_call h (Vector2_magnitude_squared fp h self)"
  by (simp add: Vector2_magnitude_squared_def pure_call_intros)

lemma pure_normalized: "pure_call h (Vector2_normalized fp h self)"
  by (simp add: Vector2_normalized_def pure_call_intros)

lemma pure_add: "pure_call h (Vector2_add fp h self other)"
  by (simp add: Vector2_add_def pure_call_intros split: sum.splits prod.splits)

lemma pure_getitem: "pure_call h (Vector2_getitem h self key)"
  by (simp add: Vector2_getitem_def pure_call_intros)

lemma pure_sub: "pure_call h (Vector2_sub fp h self other)"
  by (simp add: Vector2_sub_def pure_call_intros split: sum.splits prod.splits)

lemma pure_rsub: "pure_call h (Vector2_rsub fp h self other)"
  by (simp add: Vector2_rsub_def pure_call_intros split: pyval.splits)

lemma pure_mul: "pure_call h (Vector2_mul fp h self other)"
  by (simp add: Vector2_mul_def pure_call_intros split: sum.splits)

lemma pure_div: "pure_call h (Vector2_div fp h self other)"
  by (simp add: Vector2_div_def pure_call_intros split: sum.splits)

lemma pure_rdiv: "pure_call h (Vector2_rdiv fp h self other)"
  by (simp add: Vector2_rdiv_def pure_call_intros split: sum.splits)

lemma pure_floordiv: "pure_call h (Vector2_floordiv fp h self other)"
  by (simp add: Vector2_floordiv_def pure_call_intros split: sum.splits)

lemma pure_rfloordiv: "pure_call h (Vector2_rfloordiv fp h self other)"
  by (simp add: Vector2_rfloordiv_def pure_call_intros split: sum.splits)

lemma pure_truediv: "pure_call h (Vector2_truediv fp h self other)"
  by (simp add: Vector2_truediv_def pure_call_intros split: sum.splits)

lemma pure_rtruediv: "pure_call h (Vector2_rtruediv fp h self other)"
  by (simp add: Vector2_rtruediv_def pure_call_intros split: sum.splits)

lemma pure_neg: "pure_call h (Vector2_neg fp h self)"
  by (simp add: Vector2_neg_def pure_call_intros)

text \<open>
  C9, as claimed, fails: \<^verbatim>\<open>__imul__\<close> and \<^verbatim>\<open>__setitem__\<close> are not the in-place
  accumulate \<^verbatim>\<open>+=\<close>, and each changes the components of the vector it is called on;
  \<^verbatim>\<open>__imul__\<close> returns that same object, not a new one.
\<close>

theorem Vector2_imul_setitem_counterexample:
  "\<forall>fp :: 'f float_ops.
     Vector2_imul fp [\<lparr>vec_x = PyInt 1, vec_y = PyInt 2\<rparr>] 0 (NumVal (PyInt 3)) =
       ([\<lparr>vec_x = PyInt 3, vec_y = PyInt 6\<rparr>], Inr (VecRef 0))
     \<and> Vector2_setitem [\<lparr>vec_x = PyInt 1, vec_y = PyInt 2 :: 'f pynum\<rparr>] 0 0 (PyInt 7) =
       ([\<lparr>vec_x = PyInt 7, vec_y = PyInt 2\<rparr>], Inr NoneVal)
     \<and> \<not> pure_call [\<lparr>vec_x = PyInt 1, vec_y = PyInt 2\<rparr>]
           (Vector2_imul fp [\<lparr>vec_x = PyInt 1, vec_y = PyInt 2\<rparr>] 0 (NumVal (PyInt 3)))
     \<and> \<not> pure_call [\<lparr>vec_x = PyInt 1, vec_y = PyInt 2 :: 'f pynum\<rparr>]
           (Vector2_setitem [\<lparr>vec_x = PyInt 1, vec_y = PyInt 2\<rparr>] 0 0 (PyInt 7))"
  by (simp add: Vector2_imul_def Vector2_setitem_def assign_both_def set_x_def set_y_def
      returns_def pure_call_def Let_def)

text \<open>
  C9, amended. Apart from the three in-place methods \<^verbatim>\<open>__iadd__\<close>, \<^verbatim>\<open>__imul__\<close> and
  \<^verbatim>\<open>__setitem__\<close>, every operation of Vector2 (the constructor and the other 25
  methods), on every store, receiver and argument, whether it returns or raises, leaves
  the components of every existing vector as they were; when it returns a vector, that
  vector is a new object.
\<close>

theorem Vector2_operations_pure:
  "pure_call h (new_vector h (Vector2_init a b))
   \<and> pure_call h (Vector2_copy h self)
   \<and> pure_call h (Vector2_eq fp h self other)
   \<and> pure_call h (Vector2_ne fp h self other)
   \<and> pure_call h (Vector2_nonzero fp h self)
   \<and> pure_call h (Vector2_len h self)
   \<and> pure_call h (Vector2_dot fp h self other)
   \<and> pure_call h (Vector2_cross fp h self)
   \<and> pure_call h (Vector2_abs fp h self)
   \<and> pure_call h (Vector2_magnitude_squared fp h self)
   \<and> pure_call h (Vector2_normalized fp h self)
   \<and> pure_call h (Vector2_add fp h self other)
   \<and> pure_call h (Vector2_radd fp h self other)
   \<and> pure_call h (Vector2_getitem h self key)
   \<and> pure_call h (Vector2_sub fp h self other)
   \<and> pure_call h (Vector2_rsub fp h self other)
   \<and> pure_call h (Vector2_mul fp h self other)
   \<and> pure_call h (Vector2_rmul fp h self other)
   \<and> pure_call h (Vector2_div fp h self other)
   \<and> pure_call h (Vector2_rdiv fp h self other)
   \<and> pure_call h (Vector2_floordiv fp h self other)
   \<and> pure_call h (Vector2_rfloordiv fp h self other)
   \<and> pure_call h (Vector2_truediv fp h self other)
   \<and> pure_call h (Vector2_rtruediv fp h self other)
   \<and> pure_call h (Vector2_neg fp h self)
   \<and> pure_call h (Vector2_pos h self)"
  unfolding Vector2_radd_def Vector2_rmul_def Vector2_pos_def
  by (intro conjI pure_call_new_vector pure_copy pure_eq pure_ne pure_nonzero pure_len pure_dot
      pure_cross pure_abs pure_magnitude_squared pure_normalized pure_add pure_getitem pure_sub
      pure_rsub pure_mul pure_div pure_rdiv pure_floordiv pure_rfloordiv pure_truediv
      pure_rtruediv pure_neg)

theorem Vector2_operations_pure_witness:
  "\<forall>fp :: 'f float_ops.
     Vector2_add fp [\<lparr>vec_x = PyInt 1, vec_y = PyInt 2\<rparr>, \<lparr>vec_x = PyInt 3, vec_y = PyInt 4\<rparr>]
         0 (VecRef 1) =
       ([\<lparr>vec_x = PyInt 1, vec_y = PyInt 2\<rparr>, \<lparr>vec_x = PyInt 3, vec_y = PyInt 4\<rparr>,
         \<lparr>vec_x = PyInt 4, vec_y = PyInt 6\<rparr>], Inr (VecRef 2))
     \<and> pure_call [\<lparr>vec_x = PyInt 1, vec_y = PyInt 2\<rparr>, \<lparr>vec_x = PyInt 3, vec_y = PyInt 4\<rparr>]
          (Vector2_add fp [\<lparr>vec_x = PyInt 1, vec_y = PyInt 2\<rparr>, \<lparr>vec_x = PyInt 3, vec_y = PyInt 4\<rparr>]
             0 (VecRef 1))
     \<and> Vector2_mul fp [\<lparr>vec_x = PyInt 1, vec_y = PyInt 2\<rparr>] 0 (NumVal (PyInt 3)) =
       ([\<lparr>vec_x = PyInt 1, vec_y = PyInt 2\<rparr>, \<lparr>vec_x = PyInt 3, vec_y = PyInt 6\<rparr>], Inr (VecRef 1))
     \<and> pure_call [\<lparr>vec_x = PyInt 1, vec_y = PyInt 2\<rparr>]
          (Vector2_mul fp [\<lparr>vec_x = PyInt 1, vec_y = PyInt 2\<rparr>] 0 (NumVal (PyInt 3)))"
proof
  fix fp :: "'f float_ops"
  show "Vector2_add fp [\<lparr>vec_x = PyInt 1, vec_y = PyInt 2\<rparr>, \<lparr>vec_x = PyInt 3, vec_y = PyInt 4\<rparr>]
         0 (VecRef 1) =
       ([\<lparr>vec_x = PyInt 1, vec_y = PyInt 2\<rparr>, \<lparr>vec_x = PyInt 3, vec_y = PyInt 4\<rparr>,
         \<lparr>vec_x = PyInt 4, vec_y = PyInt 6\<rparr>], Inr (VecRef 2))
     \<and> pure_call [\<lparr>vec_x = PyInt 1, vec_y = PyInt 2\<rparr>, \<lparr>vec_x = PyInt 3, vec_y = PyInt 4\<rparr>]
          (Vector2_add fp [\<lparr>vec_x = PyInt 1, vec_y = PyInt 2\<rparr>, \<lparr>vec_x = PyInt 3, vec_y = PyInt 4\<rparr>]
             0 (VecRef 1))
     \<and> Vector2_mul fp [\<lparr>vec_x = PyInt 1, vec_y = PyInt 2\<rparr>] 0 (NumVal (PyInt 3)) =
       ([\<lparr>vec_x = PyInt 1, vec_y = PyInt 2\<rparr>, \<lparr>vec_x = PyInt 3, vec_y = PyInt 6\<rparr>], Inr (VecRef 1))
     \<and> pure_call [\<lparr>vec_x = PyInt 1, vec_y = PyInt 2\<rparr>]
          (Vector2_mul fp [\<lparr>vec_x = PyInt 1, vec_y = PyInt 2\<rparr>] 0 (NumVal (PyInt 3)))"
    using Vector2_operations_pure [where h = "[\<lparr>vec_x = PyInt 1, vec_y = PyInt 2\<rparr>, \<lparr>vec_x = PyInt 3, vec_y = PyInt 4\<rparr>]"
        and self = 0 and other = "VecRef 1" and fp = fp]
      Vector2_operations_pure [where h = "[\<lparr>vec_x = PyInt 1, vec_y = PyInt 2\<rparr>]"
        and self = 0 and other = "NumVal (PyInt 3)" and fp = fp]
    by (simp add: Vector2_add_def Vector2_mul_def new_or_raise_def vector_of_def new_vector_def
        Vector2_init_def)
qed

end
